theory Spec2Isabelle
  imports Main "HOL-Library.Char_ord" "HOL-Library.List_Lexorder"
begin

section \<open>Permission catalog (app/helpers/permissions.py, lines 24-75)\<close>

text \<open>
  The enumeration \<^verbatim>\<open>Permission\<close>, in declaration order, and the string each member
  carries as its \<^verbatim>\<open>.value\<close>.
\<close>

datatype Permission =
    MESSAGES_CREATE
  | MESSAGES_LIST
  | CHANNELS_CREATE
  | CHANNELS_VIEW
  | CHANNELS_INVITE
  | CHANNELS_JOIN
  | CHANNELS_PERMISSIONS_MANAGE
  | CHANNELS_KICK
  | CHANNELS_DELETE
  | CHANNELS_MEMBERS_LIST
  | MEMBERS_KICK
  | ROLES_LIST
  | ROLES_CREATE

fun permission_value :: "Permission \<Rightarrow> string" where
  "permission_value MESSAGES_CREATE = ''messages.create''"
| "permission_value MESSAGES_LIST = ''messages.list''"
| "permission_value CHANNELS_CREATE = ''channels.create''"
| "permission_value CHANNELS_VIEW = ''channels.view''"
| "permission_value CHANNELS_INVITE = ''channels.invite''"
| "permission_value CHANNELS_JOIN = ''channels.join''"
| "permission_value CHANNELS_PERMISSIONS_MANAGE = ''channels.permissions.manage''"
| "permission_value CHANNELS_KICK = ''channels.kick''"
| "permission_value CHANNELS_DELETE = ''channels.delete''"
| "permission_value CHANNELS_MEMBERS_LIST = ''channels.members.list''"
| "permission_value MEMBERS_KICK = ''members.kick''"
| "permission_value ROLES_LIST = ''roles.list''"
| "permission_value ROLES_CREATE = ''roles.create''"

text \<open>Iterating the enumeration (\<^verbatim>\<open>for p in Permission\<close>) visits the members in declaration order.\<close>

definition Permission_members :: "Permission list" where
  "Permission_members =
     [MESSAGES_CREATE, MESSAGES_LIST, CHANNELS_CREATE, CHANNELS_VIEW, CHANNELS_INVITE,
      CHANNELS_JOIN, CHANNELS_PERMISSIONS_MANAGE, CHANNELS_KICK, CHANNELS_DELETE,
      CHANNELS_MEMBERS_LIST, MEMBERS_KICK, ROLES_LIST, ROLES_CREATE]"

definition SERVER_OWNER_PERMISSIONS :: "string list" where
  "SERVER_OWNER_PERMISSIONS = map permission_value Permission_members"

definition CHANNEL_OWNER_PERMISSIONS :: "string list" where
  "CHANNEL_OWNER_PERMISSIONS = map permission_value Permission_members"

definition DEFAULT_ROLE_PERMISSIONS :: "string list" where
  "DEFAULT_ROLE_PERMISSIONS = map permission_value [MESSAGES_LIST, MESSAGES_CREATE]"

definition DEFAULT_DM_MEMBER_PERMISSIONS :: "string list" where
  "DEFAULT_DM_MEMBER_PERMISSIONS =
     map permission_value [CHANNELS_VIEW, MESSAGES_LIST, MESSAGES_CREATE, CHANNELS_MEMBERS_LIST]"

definition DEFAULT_TOPIC_MEMBER_PERMISSIONS :: "string list" where
  "DEFAULT_TOPIC_MEMBER_PERMISSIONS =
     map permission_value [CHANNELS_VIEW, MESSAGES_LIST, MESSAGES_CREATE, CHANNELS_MEMBERS_LIST]"

definition DEFAULT_USER_PERMISSIONS :: "string list" where
  "DEFAULT_USER_PERMISSIONS = map permission_value [CHANNELS_CREATE]"


section \<open>Python values\<close>

text \<open>
  A cached record is a Redis hash read back as a Python dict of strings: a list of
  (field, value) pairs, looked up with \<^const>\<open>map_of\<close> (\<^verbatim>\<open>d.get(k)\<close>); the empty dict,
  which Python treats as false, is the empty list.
\<close>

type_synonym fields = "(string \<times> string) list"

text \<open>
  An overwrite map (the decoded \<^verbatim>\<open>permissions\<close> field) is only read with \<^verbatim>\<open>.get\<close>.
  The user's roles are iterated with \<^verbatim>\<open>.items()\<close>, so their order is kept.
\<close>

type_synonym overwrites = "string \<rightharpoonup> string list"

type_synonym roles = "(string \<times> string list) list"

text \<open>Truth value of an \<^verbatim>\<open>Optional[str]\<close>: \<^verbatim>\<open>None\<close> and the empty string are false.\<close>

definition truthy :: "string option \<Rightarrow> bool" where
  "truthy x = (case x of None \<Rightarrow> False | Some s \<Rightarrow> s \<noteq> [])"

text \<open>\<^verbatim>\<open>x or ""\<close> for an optional string.\<close>

definition or_empty :: "string option \<Rightarrow> string" where
  "or_empty x = (case x of None \<Rightarrow> [] | Some s \<Rightarrow> s)"

text \<open>An optional string inside an f-string: \<^verbatim>\<open>None\<close> is rendered as the text None.\<close>

definition py_str :: "string option \<Rightarrow> string" where
  "py_str x = (case x of None \<Rightarrow> ''None'' | Some s \<Rightarrow> s)"

text \<open>\<^verbatim>\<open>s.split(c)\<close> for a one-character separator: never empty, \<^verbatim>\<open>"".split(",") == [""]\<close>.\<close>

fun str_split :: "char \<Rightarrow> string \<Rightarrow> string list" where
  "str_split c [] = [[]]"
| "str_split c (x # xs) =
     (if x = c then [] # str_split c xs
      else (case str_split c xs of [] \<Rightarrow> [[x]] | w # ws \<Rightarrow> (x # w) # ws))"

text \<open>\<^verbatim>\<open>user_id in members\<close>; the source evaluates it only for a user id that is a string.\<close>

definition py_in :: "string option \<Rightarrow> string list \<Rightarrow> bool" where
  "py_in x xs = (case x of None \<Rightarrow> False | Some s \<Rightarrow> s \<in> set xs)"


section \<open>Overwrite resolution (\<^verbatim>\<open>_calc_final_permissions\<close>, lines 146-165)\<close>

text \<open>
  The loop over \<^verbatim>\<open>user_roles.items()\<close>, with the accumulated set \<^verbatim>\<open>permissions\<close>:
  a channel overwrite for the role wins, else a section overwrite, else the role's own list.
\<close>

fun calc_roles_loop :: "roles \<Rightarrow> overwrites \<Rightarrow> overwrites \<Rightarrow> string set \<Rightarrow> string set" where
  "calc_roles_loop [] section_overwrites channel_overwrites permissions = permissions"
| "calc_roles_loop ((role_id, role_permissions) # rest) section_overwrites channel_overwrites permissions =
     (case channel_overwrites role_id of
        Some c_permissions \<Rightarrow>
          calc_roles_loop rest section_overwrites channel_overwrites (permissions \<union> set c_permissions)
      | None \<Rightarrow>
          (case section_overwrites role_id of
             Some s_permissions \<Rightarrow>
               calc_roles_loop rest section_overwrites channel_overwrites (permissions \<union> set s_permissions)
           | None \<Rightarrow>
               calc_roles_loop rest section_overwrites channel_overwrites (permissions \<union> set role_permissions)))"

definition calc_final_permissions :: "roles \<Rightarrow> overwrites \<Rightarrow> overwrites \<Rightarrow> string set" where
  "calc_final_permissions user_roles section_overwrites channel_overwrites =
     calc_roles_loop user_roles section_overwrites channel_overwrites {}
       \<union> set (case channel_overwrites ''@public'' of None \<Rightarrow> [] | Some p \<Rightarrow> p)"

text \<open>
  What one role contributes under the precedence channel overwrite, then section overwrite,
  then the role's own default list: exactly one of the three.
\<close>

definition role_contribution :: "overwrites \<Rightarrow> overwrites \<Rightarrow> string \<times> string list \<Rightarrow> string set" where
  "role_contribution section_overwrites channel_overwrites binding =
     (case channel_overwrites (fst binding) of
        Some c \<Rightarrow> set c
      | None \<Rightarrow> (case section_overwrites (fst binding) of
                   Some s \<Rightarrow> set s
                 | None \<Rightarrow> set (snd binding)))"

definition public_overwrite :: "overwrites \<Rightarrow> string set" where
  "public_overwrite channel_overwrites =
     (case channel_overwrites ''@public'' of None \<Rightarrow> {} | Some p \<Rightarrow> set p)"


section \<open>Errors, collaborators and recorded effects\<close>

text \<open>
  The exceptions the resolution can end with. \<^verbatim>\<open>APIPermissionError\<close> is raised with a
  message in two places and with the needed and the actual permissions by
  \<^verbatim>\<open>check_request_permissions\<close>; the
  message about an unknown channel type carries the channel record it prints.
  \<^verbatim>\<open>AttributeError\<close> is Python's error for \<^verbatim>\<open>[].split\<close>, \<^verbatim>\<open>TypeError\<close> the one
  \<^verbatim>\<open>json.loads\<close> raises for an argument that is a dict, and \<^verbatim>\<open>JSONDecodeError\<close> the
  one it raises for a string that is not JSON.
\<close>

datatype api_permission_args =
    NotDMMember
  | UnknownChannelType fields
  | NeededPermissions "string list" "string list"

datatype error =
    HTTPException nat string
  | APIPermissionError api_permission_args
  | AttributeError
  | TypeError
  | JSONDecodeError

text \<open>
  The effect of a resolution on the outside world is the sequence of fetch-and-cache calls
  it makes (each reads durable storage and repopulates the cache); the calls are recorded
  in the order the source makes them.
\<close>

datatype call =
    FetchChannel string
  | FetchServer string
  | FetchUser string "string option"
  | FetchSection "string option" string

text \<open>
  Modelled from the spec: the helpers imported from \<^verbatim>\<open>app.helpers.channels\<close>,
  \<^verbatim>\<open>sections\<close>, \<^verbatim>\<open>servers\<close>, \<^verbatim>\<open>users\<close> and \<^verbatim>\<open>cache_utils\<close> are not part of the
  sources at hand, so they are parameters of the model, with the shapes the spec gives them:
  \<^verbatim>\<open>fetch_and_cache_channel\<close> returns the record or a not-found indicator, the other
  fetches return a record that is empty when nothing is found, and
  \<^verbatim>\<open>get_user_roles_permissions\<close> maps a user and a server record to the role map.
  \<^verbatim>\<open>hgetall\<close> is the cache as the atomic script sees it (\<^verbatim>\<open>HGETALL\<close> of a key, converted
  by \<^verbatim>\<open>convert_redis_list_to_dict\<close>; a missing key is the empty hash). \<^verbatim>\<open>json_loads\<close> is
  \<^verbatim>\<open>json.loads\<close> on a stored \<^verbatim>\<open>permissions\<close> string, \<open>None\<close> when it raises.
\<close>

record env =
  hgetall :: "string \<Rightarrow> fields"
  fetch_and_cache_channel :: "string \<Rightarrow> fields option"
  fetch_and_cache_server :: "string \<Rightarrow> fields"
  fetch_and_cache_user :: "string \<Rightarrow> string option \<Rightarrow> fields"
  fetch_and_cache_section :: "string option \<Rightarrow> string \<Rightarrow> fields"
  get_user_roles_permissions :: "fields \<Rightarrow> fields \<Rightarrow> roles"
  json_loads :: "string \<Rightarrow> overwrites option"

text \<open>
  A block of the function either raises, returns from the whole function, or falls through
  with the values of the local variables it has set; in each case with the calls it made.
\<close>

datatype 'a step = Raise error | Return "string list" | Continue 'a

type_synonym 'a effect = "'a step \<times> call list"

definition and_then :: "'a effect \<Rightarrow> ('a \<Rightarrow> 'b effect) \<Rightarrow> 'b effect" where
  "and_then m f =
     (case m of
        (Raise e, cs) \<Rightarrow> (Raise e, cs)
      | (Return ps, cs) \<Rightarrow> (Return ps, cs)
      | (Continue x, cs) \<Rightarrow> (case f x of (r, cs') \<Rightarrow> (r, cs @ cs')))"


section \<open>Atomic multi-entity fetch (\<^verbatim>\<open>fetch_cached_permissions_data\<close>, lines 168-202)\<close>

text \<open>
  The keys are \<^verbatim>\<open>f"channel:{channel_id}"\<close> and the user key, which is the empty string
  for an empty user id (a string, so the script's \<^verbatim>\<open>if KEYS[2]\<close> holds and the key is read
  all the same). The server and the section are read only when the channel hash has the
  field that names them.
\<close>

definition fetch_cached_permissions_data ::
  "env \<Rightarrow> string option \<Rightarrow> string \<Rightarrow> fields \<times> fields \<times> fields \<times> fields" where
  "fetch_cached_permissions_data env channel_id user_id =
     (let key1 = ''channel:'' @ py_str channel_id;
          key2 = (if user_id \<noteq> [] then ''user:'' @ user_id else user_id);
          channel_data = hgetall env key1;
          user_data = hgetall env key2;
          server_data = (case map_of channel_data ''server'' of
                           Some server_id \<Rightarrow> hgetall env (''server:'' @ server_id)
                         | None \<Rightarrow> []);
          section_data = (case map_of channel_data ''section'' of
                            Some section_id \<Rightarrow> hgetall env (''section:'' @ section_id)
                          | None \<Rightarrow> [])
      in (channel_data, user_data, server_data, section_data))"


section \<open>Permission resolution (\<^verbatim>\<open>fetch_user_permissions\<close>, lines 205-267)\<close>

text \<open>Lines 217-218: the cached channel is used unless it is empty or has no kind.\<close>

definition load_channel :: "env \<Rightarrow> string \<Rightarrow> fields \<Rightarrow> fields option \<times> call list" where
  "load_channel env cid cached =
     (if cached = [] \<or> map_of cached ''kind'' = None
      then (fetch_and_cache_channel env cid, [FetchChannel cid])
      else (Some cached, []))"

text \<open>
  Lines 223-237: the dispatch on the channel's kind. It sets \<^verbatim>\<open>user_roles\<close> and
  \<^verbatim>\<open>server_id\<close>. \<^verbatim>\<open>channel.get("members", []).split(",")\<close> raises when the field is
  missing, since the default is a list.
\<close>

definition kind_dispatch ::
  "fields \<Rightarrow> string option \<Rightarrow> string option \<Rightarrow> (roles \<times> string option) step" where
  "kind_dispatch ch server_id user_id =
     (if map_of ch ''kind'' = Some ''dm'' then
        (case map_of ch ''members'' of
           None \<Rightarrow> Raise AttributeError
         | Some ms \<Rightarrow>
             if \<not> truthy user_id \<or> \<not> py_in user_id (str_split CHR '','' ms)
             then Raise (APIPermissionError NotDMMember)
             else Return DEFAULT_DM_MEMBER_PERMISSIONS)
      else if map_of ch ''kind'' = Some ''topic'' then
        (if truthy user_id \<and> map_of ch ''owner'' = user_id
         then Return CHANNEL_OWNER_PERMISSIONS
         else (case map_of ch ''members'' of
                 None \<Rightarrow> Raise AttributeError
               | Some ms \<Rightarrow>
                   if truthy user_id \<and> py_in user_id (str_split CHR '','' ms)
                   then Continue ([(''@members'', DEFAULT_TOPIC_MEMBER_PERMISSIONS)], server_id)
                   else Continue ([], server_id)))
      else if map_of ch ''kind'' = Some ''server'' then
        Continue ([], map_of ch ''server'')
      else Raise (APIPermissionError (UnknownChannelType ch)))"

text \<open>Lines 216-237: the block under \<^verbatim>\<open>if channel_id\<close>; it sets \<^verbatim>\<open>channel\<close> as well.\<close>

definition channel_block ::
  "env \<Rightarrow> string option \<Rightarrow> string option \<Rightarrow> string option \<Rightarrow> fields
     \<Rightarrow> (fields \<times> roles \<times> string option) effect" where
  "channel_block env channel_id server_id user_id cached =
     (case channel_id of
        None \<Rightarrow> (Continue (cached, [], server_id), [])
      | Some cid \<Rightarrow>
          if cid = [] then (Continue (cached, [], server_id), [])
          else (case load_channel env cid cached of
                  (None, cs) \<Rightarrow> (Raise (HTTPException 404 ''channel not found''), cs)
                | (Some ch, cs) \<Rightarrow>
                    if ch = [] then (Raise (HTTPException 404 ''channel not found''), cs)
                    else (case kind_dispatch ch server_id user_id of
                            Raise e \<Rightarrow> (Raise e, cs)
                          | Return ps \<Rightarrow> (Return ps, cs)
                          | Continue (user_roles, server_id') \<Rightarrow>
                              (Continue (ch, user_roles, server_id'), cs))))"

text \<open>
  Lines 239-242: the server is fetched when there is a server id and no cached server
  record, and the owner test is made inside that branch, on the fetched record.
\<close>

definition server_block ::
  "env \<Rightarrow> string option \<Rightarrow> string option \<Rightarrow> fields \<Rightarrow> fields effect" where
  "server_block env server_id user_id cached =
     (case server_id of
        None \<Rightarrow> (Continue cached, [])
      | Some sid \<Rightarrow>
          if sid \<noteq> [] \<and> cached = [] then
            (let server = fetch_and_cache_server env sid in
             if truthy user_id \<and> map_of server ''owner'' = user_id
             then (Return SERVER_OWNER_PERMISSIONS, [FetchServer sid])
             else (Continue server, [FetchServer sid]))
          else (Continue cached, []))"

text \<open>
  Lines 245-249: with a server record and a user id, the roles come from
  \<^verbatim>\<open>get_user_roles_permissions\<close> and replace whatever \<^verbatim>\<open>user_roles\<close> held.
\<close>

definition roles_block ::
  "env \<Rightarrow> string option \<Rightarrow> string option \<Rightarrow> fields \<Rightarrow> fields \<Rightarrow> roles \<Rightarrow> roles effect" where
  "roles_block env server_id user_id server cached_user user_roles =
     (case user_id of
        None \<Rightarrow> (Continue user_roles, [])
      | Some uid \<Rightarrow>
          if server \<noteq> [] \<and> uid \<noteq> [] then
            (if cached_user = [] \<or> \<not> truthy (map_of cached_user (py_str server_id @ ''.roles''))
             then (Continue (get_user_roles_permissions env
                               (fetch_and_cache_user env uid server_id) server),
                   [FetchUser uid server_id])
             else (Continue (get_user_roles_permissions env cached_user server), []))
          else (Continue user_roles, []))"

text \<open>
  Line 252: \<^verbatim>\<open>json.loads(channel.get("permissions", "{}"))\<close>; the default is the text of
  the empty object, which decodes to the empty dict.
\<close>

definition channel_overwrites_of :: "env \<Rightarrow> fields \<Rightarrow> overwrites effect" where
  "channel_overwrites_of env ch =
     (case map_of ch ''permissions'' of
        None \<Rightarrow> (Continue Map.empty, [])
      | Some s \<Rightarrow> (case json_loads env s of
                    None \<Rightarrow> (Raise JSONDecodeError, [])
                  | Some channel_overwrites \<Rightarrow> (Continue channel_overwrites, [])))"

text \<open>
  Lines 253-256: without a cached section and with a channel id, the section is fetched
  unless the channel's section field is the empty string (a missing field is \<^verbatim>\<open>None\<close>,
  which differs from the empty string).
\<close>

definition section_block :: "env \<Rightarrow> string option \<Rightarrow> fields \<Rightarrow> fields \<Rightarrow> fields effect" where
  "section_block env channel_id ch cached =
     (case channel_id of
        None \<Rightarrow> (Continue cached, [])
      | Some cid \<Rightarrow>
          if cached = [] \<and> cid \<noteq> [] then
            (let section_id = map_of ch ''section'' in
             if section_id \<noteq> Some []
             then (Continue (fetch_and_cache_section env section_id cid),
                   [FetchSection section_id cid])
             else (Continue cached, []))
          else (Continue cached, []))"

text \<open>
  Lines 251, 258-259: \<^verbatim>\<open>json.loads(section.get("permissions", {}))\<close>; here the default
  is a dict, which \<^verbatim>\<open>json.loads\<close> rejects with a \<^verbatim>\<open>TypeError\<close>.
\<close>

definition section_overwrites_of :: "env \<Rightarrow> fields \<Rightarrow> overwrites effect" where
  "section_overwrites_of env sec =
     (if sec \<noteq> [] then
        (case map_of sec ''permissions'' of
           None \<Rightarrow> (Raise TypeError, [])
         | Some s \<Rightarrow> (case json_loads env s of
                       None \<Rightarrow> (Raise JSONDecodeError, [])
                     | Some section_overwrites \<Rightarrow> (Continue section_overwrites, [])))
      else (Continue Map.empty, []))"

text \<open>Lines 251-259 together: both overwrite maps, the channel's decoded first.\<close>

definition overwrites_block ::
  "env \<Rightarrow> string option \<Rightarrow> fields \<Rightarrow> fields \<Rightarrow> (overwrites \<times> overwrites) effect" where
  "overwrites_block env channel_id ch cached_section =
     and_then (channel_overwrites_of env ch)
       (\<lambda>channel_overwrites.
     and_then (section_block env channel_id ch cached_section)
       (\<lambda>sec.
     and_then (section_overwrites_of env sec)
       (\<lambda>section_overwrites.
          (Continue (section_overwrites, channel_overwrites), []))))"

text \<open>
  The blocks in the order of the source, from line 212 on; falling through them all ends
  at line 267 with the sorted list of the final set.
\<close>

definition resolve ::
  "env \<Rightarrow> string option \<Rightarrow> string option \<Rightarrow> string option \<Rightarrow> string list effect" where
  "resolve env channel_id server_id user_id =
     (case fetch_cached_permissions_data env channel_id (or_empty user_id) of
        (cached_channel, cached_user, cached_server, cached_section) \<Rightarrow>
     and_then (channel_block env channel_id server_id user_id cached_channel)
       (\<lambda>(ch, seeded_roles, server_id').
     and_then (server_block env server_id' user_id cached_server)
       (\<lambda>server.
     and_then (roles_block env server_id' user_id server cached_user seeded_roles)
       (\<lambda>user_roles.
     and_then (overwrites_block env channel_id ch cached_section)
       (\<lambda>(section_overwrites, channel_overwrites).
          (Continue (sorted_list_of_set
                       (calc_final_permissions user_roles section_overwrites channel_overwrites)),
           []))))))"

text \<open>
  The function: the result, or the exception it ends with, and the calls made.
  Line 209 answers a call without any context before anything is read.
\<close>

definition fetch_user_permissions ::
  "env \<Rightarrow> string option \<Rightarrow> string option \<Rightarrow> string option \<Rightarrow> (error + string list) \<times> call list" where
  "fetch_user_permissions env channel_id server_id user_id =
     (if \<not> truthy channel_id \<and> \<not> truthy server_id then (Inr DEFAULT_USER_PERMISSIONS, [])
      else (case resolve env channel_id server_id user_id of
              (Raise e, cs) \<Rightarrow> (Inl e, cs)
            | (Return ps, cs) \<Rightarrow> (Inr ps, cs)
            | (Continue ps, cs) \<Rightarrow> (Inr ps, cs)))"


section \<open>Request context and the permission check (lines 78-123, 270-278)\<close>

text \<open>
  Of a request the check reads the URL path and the JSON body. The body is \<open>None\<close> when
  \<^verbatim>\<open>request.json()\<close> raises or gives something that is not a dict, and the fields of the
  object otherwise; in the first case the source gives up with \<^verbatim>\<open>None\<close>.
\<close>

record Request =
  url_path :: string
  json_body :: "fields option"

record User =
  pk :: string

text \<open>The loop of \<^verbatim>\<open>_fetch_fields_from_request_body\<close>: the first field with a true value.\<close>

fun first_field :: "string list \<Rightarrow> fields \<Rightarrow> string option" where
  "first_field [] body = None"
| "first_field (field # rest) body =
     (if truthy (map_of body field) then map_of body field else first_field rest body)"

definition fetch_fields_from_request_body :: "string list \<Rightarrow> Request \<Rightarrow> string option" where
  "fetch_fields_from_request_body field_names request =
     (case json_body request of
        None \<Rightarrow> None
      | Some body \<Rightarrow> if body = [] then None else first_field field_names body)"

text \<open>
  \<^verbatim>\<open>re.findall(r"^/channels/(.{24})/?", path)\<close>: the pattern is anchored at the start, so
  there is at most one match, the 24 characters after the prefix, none of them a newline.
\<close>

definition path_id :: "string \<Rightarrow> string \<Rightarrow> string option" where
  "path_id prefix p =
     (let rest = drop (length prefix) p in
      if take (length prefix) p = prefix \<and> 24 \<le> length rest
           \<and> CHR 0x0A \<notin> set (take 24 rest)
      then Some (take 24 rest) else None)"

definition fetch_channel_from_request :: "Request \<Rightarrow> string option" where
  "fetch_channel_from_request request =
     (case path_id ''/channels/'' (url_path request) of
        Some m \<Rightarrow> Some m
      | None \<Rightarrow>
          (let v = fetch_fields_from_request_body [''channel'', ''channel_id''] request in
           if truthy v then v else None))"

definition fetch_server_from_request :: "Request \<Rightarrow> string option" where
  "fetch_server_from_request request =
     (case path_id ''/servers/'' (url_path request) of
        Some m \<Rightarrow> Some m
      | None \<Rightarrow>
          (let v = fetch_fields_from_request_body [''server'', ''server_id''] request in
           if truthy v then v else None))"

text \<open>
  Lines 270-278. An exception of the resolution passes through; otherwise the check raises
  unless every required permission is in the resolved list.
\<close>

definition check_request_permissions ::
  "env \<Rightarrow> Request \<Rightarrow> string list \<Rightarrow> User option \<Rightarrow> (error + unit) \<times> call list" where
  "check_request_permissions env request permissions current_user =
     (let channel_id = fetch_channel_from_request request;
          server_id = fetch_server_from_request request;
          user_id = (case current_user of Some u \<Rightarrow> Some (pk u) | None \<Rightarrow> None)
      in case fetch_user_permissions env channel_id server_id user_id of
           (Inl e, cs) \<Rightarrow> (Inl e, cs)
         | (Inr user_permissions, cs) \<Rightarrow>
             if \<not> list_all (\<lambda>req_permission. req_permission \<in> set user_permissions) permissions
             then (Inl (APIPermissionError (NeededPermissions permissions user_permissions)), cs)
             else (Inr (), cs))"


section \<open>A sample deployment\<close>

text \<open>
  A concrete cache and durable store on which the statements below are evaluated. Users
  u1, u2 and u3; u1 owns everything. The cache holds two direct-message channels (dm2
  without a members field), three topic channels (t2 with an overwrite that gives the role
  @members nothing, t3 without a section field), a channel of an unknown kind, and two server channels: c1, whose
  server s1 is cached too, and c2, whose server s2 is only in durable storage and whose
  section sec1 is cached without a permissions field. Channel c3 is only in durable
  storage, and channel c404 is nowhere.
\<close>

definition members_none_json :: string where
  "members_none_json = ''{'' @ [CHR 0x22] @ ''@members'' @ [CHR 0x22] @ '': []}''"

definition demo_cache :: "string \<Rightarrow> fields" where
  "demo_cache key =
     (if key = ''channel:dm1'' then [(''kind'', ''dm''), (''members'', ''u1,u2'')]
      else if key = ''channel:dm2'' then [(''kind'', ''dm''), (''owner'', ''u1'')]
      else if key = ''channel:t1'' then
        [(''kind'', ''topic''), (''owner'', ''u1''), (''members'', ''u1,u2''), (''section'', [])]
      else if key = ''channel:t2'' then
        [(''kind'', ''topic''), (''owner'', ''u1''), (''members'', ''u1,u2''), (''section'', []),
         (''permissions'', members_none_json)]
      else if key = ''channel:t3'' then
        [(''kind'', ''topic''), (''owner'', ''u1''), (''members'', ''u1,u2'')]
      else if key = ''channel:b1'' then [(''kind'', ''bogus''), (''owner'', ''u1'')]
      else if key = ''channel:c1'' then
        [(''kind'', ''server''), (''server'', ''s1''), (''section'', [])]
      else if key = ''channel:c2'' then
        [(''kind'', ''server''), (''server'', ''s2''), (''section'', ''sec1'')]
      else if key = ''server:s1'' then [(''id'', ''s1''), (''owner'', ''u1'')]
      else if key = ''section:sec1'' then [(''id'', ''sec1''), (''name'', ''general'')]
      else [])"

definition demo_env :: env where
  "demo_env =
     \<lparr> hgetall = demo_cache,
       fetch_and_cache_channel =
         (\<lambda>cid. if cid = ''c3'' then Some [(''kind'', ''dm''), (''members'', ''u1,u3'')]
                else None),
       fetch_and_cache_server =
         (\<lambda>sid. if sid = ''s1'' \<or> sid = ''s2'' then [(''id'', sid), (''owner'', ''u1'')] else []),
       fetch_and_cache_user =
         (\<lambda>uid sid. [(''id'', uid), (py_str sid @ ''.roles'', ''r1'')]),
       fetch_and_cache_section = (\<lambda>section_id cid. []),
       get_user_roles_permissions = (\<lambda>user server. [(''r1'', DEFAULT_ROLE_PERMISSIONS)]),
       json_loads =
         (\<lambda>s. if s = members_none_json then Some (Map.empty(''@members'' \<mapsto> []))
              else if s = ''{}'' then Some Map.empty
              else None) \<rparr>"


text \<open>A request that names the direct-message channel dm1 in its body.\<close>

definition demo_request :: Request where
  "demo_request = \<lparr> url_path = ''/messages'', json_body = Some [(''channel'', ''dm1'')] \<rparr>"


section \<open>Properties of the overwrite resolution\<close>

lemma calc_roles_loop_union:
  "calc_roles_loop ur so co acc = acc \<union> \<Union> (role_contribution so co ` set ur)"
proof (induction ur arbitrary: acc)
  case Nil
  show ?case by simp
next
  case (Cons b ur)
  obtain r p where b: "b = (r, p)" by (cases b)
  show ?case
    unfolding b
    by (cases "co r"; cases "so r") (auto simp: Cons.IH role_contribution_def)
qed

lemma finite_role_contribution: "finite (role_contribution so co b)"
  by (cases "co (fst b)"; cases "so (fst b)") (simp_all add: role_contribution_def)

lemma finite_calc_final_permissions: "finite (calc_final_permissions ur so co)"
  by (cases "co ''@public''")
    (simp_all add: calc_final_permissions_def calc_roles_loop_union finite_role_contribution)

text \<open>
  C2. The resolution returns exactly the union, over the bindings of the user's roles, of the
  single tier each role resolves to (channel overwrite, else section overwrite, else the
  role's default), together with the channel overwrite for the role id @public; the
  @public overwrite is therefore contained in the result for every roles map, the empty one
  included.
\<close>

theorem calc_final_permissions_precedence_union:
  "calc_final_permissions user_roles section_overwrites channel_overwrites
     = \<Union> (role_contribution section_overwrites channel_overwrites ` set user_roles)
         \<union> public_overwrite channel_overwrites
   \<and> public_overwrite channel_overwrites
        \<subseteq> calc_final_permissions user_roles section_overwrites channel_overwrites
   \<and> calc_final_permissions [] section_overwrites channel_overwrites
        = public_overwrite channel_overwrites"
  by (simp add: calc_final_permissions_def calc_roles_loop_union public_overwrite_def
      split: option.split)

text \<open>
  C3. Two role maps with the same (role id, permission list) bindings, listed in any order,
  resolve to the same final set under fixed section and channel overwrites.
\<close>

theorem calc_final_permissions_order_invariant:
  assumes "set user_roles = set user_roles'"
  shows "calc_final_permissions user_roles section_overwrites channel_overwrites
           = calc_final_permissions user_roles' section_overwrites channel_overwrites"
  using assms by (simp add: calc_final_permissions_def calc_roles_loop_union)

theorem calc_final_permissions_order_invariant_witness:
  "set [(''r1'', [''messages.list'']), (''r2'', [''channels.view''])]
     = set [(''r2'', [''channels.view'']), (''r1'', [''messages.list''])]
   \<and> calc_final_permissions [(''r1'', [''messages.list'']), (''r2'', [''channels.view''])]
        (Map.empty(''r2'' \<mapsto> [''roles.list''])) Map.empty
     = calc_final_permissions [(''r2'', [''channels.view'']), (''r1'', [''messages.list''])]
        (Map.empty(''r2'' \<mapsto> [''roles.list''])) Map.empty"
proof -
  have h: "set [(''r1'', [''messages.list'']), (''r2'', [''channels.view''])]
     = set [(''r2'', [''channels.view'']), (''r1'', [''messages.list''])]"
    by auto
  show ?thesis
    using h calc_final_permissions_order_invariant [OF h] by blast
qed


section \<open>Properties of the channel dispatch\<close>

lemma and_then_Raise: "and_then (Raise e, cs) f = (Raise e, cs)"
  by (simp add: and_then_def)

lemma and_then_Return: "and_then (Return ps, cs) f = (Return ps, cs)"
  by (simp add: and_then_def)

lemma and_then_Continue: "and_then (Continue x, cs) f = (fst (f x), cs @ snd (f x))"
  by (simp add: and_then_def split: prod.split)

lemma channel_block_loaded:
  assumes "cid \<noteq> []" and "load_channel env cid cached = (Some ch, cs)" and "ch \<noteq> []"
  shows "channel_block env (Some cid) sid uid cached =
           (case kind_dispatch ch sid uid of
              Raise e \<Rightarrow> (Raise e, cs)
            | Return ps \<Rightarrow> (Return ps, cs)
            | Continue (ur, sid') \<Rightarrow> (Continue (ch, ur, sid'), cs))"
  using assms by (simp add: channel_block_def)

text \<open>Once the dispatch raises or returns, that is the outcome of the whole call.\<close>

lemma dispatch_raise:
  assumes "cid \<noteq> []"
    and "fetch_cached_permissions_data env (Some cid) (or_empty uid)
           = (cached, cuser, cserver, csection)"
    and "load_channel env cid cached = (Some ch, cs)" and "ch \<noteq> []"
    and "kind_dispatch ch sid uid = Raise e"
  shows "fetch_user_permissions env (Some cid) sid uid = (Inl e, cs)"
  using assms(1,2,5)
  by (simp add: fetch_user_permissions_def resolve_def truthy_def
      channel_block_loaded [OF assms(1,3,4)] and_then_Raise)

lemma dispatch_return:
  assumes "cid \<noteq> []"
    and "fetch_cached_permissions_data env (Some cid) (or_empty uid)
           = (cached, cuser, cserver, csection)"
    and "load_channel env cid cached = (Some ch, cs)" and "ch \<noteq> []"
    and "kind_dispatch ch sid uid = Return ps"
  shows "fetch_user_permissions env (Some cid) sid uid = (Inr ps, cs)"
  using assms(1,2,5)
  by (simp add: fetch_user_permissions_def resolve_def truthy_def
      channel_block_loaded [OF assms(1,3,4)] and_then_Return)

lemma kind_nonempty: "map_of ch ''kind'' = Some k \<Longrightarrow> ch \<noteq> []"
  by auto

text \<open>
  C4. For a channel id that is given and a channel record of kind dm whose members field
  splits into the list M: the call ends with an APIPermissionError exactly when the user
  id is absent (\<^verbatim>\<open>None\<close> or the empty string, both false in the source) or not in M, and
  for a user id in M it returns DEFAULT_DM_MEMBER_PERMISSIONS, having made no call beyond
  loading the channel.
\<close>

theorem dm_channel_membership:
  assumes "cid \<noteq> []"
    and "fetch_cached_permissions_data env (Some cid) (or_empty user_id)
           = (cached, cuser, cserver, csection)"
    and "load_channel env cid cached = (Some ch, cs)"
    and "map_of ch ''kind'' = Some ''dm''"
    and "map_of ch ''members'' = Some ms"
  shows "((\<exists>a. fst (fetch_user_permissions env (Some cid) server_id user_id)
                 = Inl (APIPermissionError a))
            \<longleftrightarrow> \<not> (\<exists>u. user_id = Some u \<and> u \<noteq> [] \<and> u \<in> set (str_split CHR '','' ms)))
       \<and> ((\<exists>u. user_id = Some u \<and> u \<noteq> [] \<and> u \<in> set (str_split CHR '','' ms))
            \<longrightarrow> fetch_user_permissions env (Some cid) server_id user_id
                  = (Inr DEFAULT_DM_MEMBER_PERMISSIONS, cs))"
proof (cases "\<exists>u. user_id = Some u \<and> u \<noteq> [] \<and> u \<in> set (str_split CHR '','' ms)")
  case True
  then have "kind_dispatch ch server_id user_id = Return DEFAULT_DM_MEMBER_PERMISSIONS"
    using assms(4,5) by (auto simp: kind_dispatch_def truthy_def py_in_def)
  from dispatch_return [OF assms(1,2,3) kind_nonempty [OF assms(4)] this] True
  show ?thesis by simp
next
  case False
  then have "kind_dispatch ch server_id user_id = Raise (APIPermissionError NotDMMember)"
    using assms(4,5) by (auto simp: kind_dispatch_def truthy_def py_in_def split: option.splits)
  from dispatch_raise [OF assms(1,2,3) kind_nonempty [OF assms(4)] this] False
  show ?thesis by simp
qed

theorem dm_channel_membership_witness:
  "((\<exists>a. fst (fetch_user_permissions demo_env (Some ''dm1'') None (Some ''u3''))
            = Inl (APIPermissionError a))
      \<longleftrightarrow> \<not> (\<exists>u. Some ''u3'' = Some u \<and> u \<noteq> [] \<and> u \<in> set (str_split CHR '','' ''u1,u2'')))
   \<and> fetch_user_permissions demo_env (Some ''dm1'') None (Some ''u2'')
       = (Inr DEFAULT_DM_MEMBER_PERMISSIONS, [])"
proof -
  let ?ch = "[(''kind'', ''dm''), (''members'', ''u1,u2'')]"
  have c: "''dm1'' \<noteq> []" by simp
  have s3: "fetch_cached_permissions_data demo_env (Some ''dm1'') (or_empty (Some ''u3''))
              = (?ch, [], [], [])"
    by code_simp
  have s2: "fetch_cached_permissions_data demo_env (Some ''dm1'') (or_empty (Some ''u2''))
              = (?ch, [], [], [])"
    by code_simp
  have l: "load_channel demo_env ''dm1'' ?ch = (Some ?ch, [])"
    by code_simp
  have k: "map_of ?ch ''kind'' = Some ''dm''" by simp
  have m: "map_of ?ch ''members'' = Some ''u1,u2''" by simp
  have u2: "\<exists>u. Some ''u2'' = Some u \<and> u \<noteq> [] \<and> u \<in> set (str_split CHR '','' ''u1,u2'')"
    by simp
  show ?thesis
    using dm_channel_membership [OF c s3 l k m, of None]
      dm_channel_membership [OF c s2 l k m, of None] u2
    by blast
qed

text \<open>
  C7. For a channel id that is given and an existing channel record whose kind is none of
  dm, topic and server (a missing kind included), the call ends with the
  APIPermissionError about an unknown channel type, whoever the user is; nothing is
  granted.
\<close>

theorem unknown_kind_rejected:
  assumes "cid \<noteq> []"
    and "fetch_cached_permissions_data env (Some cid) (or_empty user_id)
           = (cached, cuser, cserver, csection)"
    and "load_channel env cid cached = (Some ch, cs)"
    and "ch \<noteq> []"
    and "map_of ch ''kind'' \<notin> {Some ''dm'', Some ''topic'', Some ''server''}"
  shows "fetch_user_permissions env (Some cid) server_id user_id
           = (Inl (APIPermissionError (UnknownChannelType ch)), cs)"
proof -
  have "kind_dispatch ch server_id user_id = Raise (APIPermissionError (UnknownChannelType ch))"
    using assms(5) by (simp add: kind_dispatch_def)
  from dispatch_raise [OF assms(1,2,3,4) this] show ?thesis .
qed

theorem unknown_kind_rejected_witness:
  "map_of [(''kind'', ''bogus''), (''owner'', ''u1'')] ''kind''
     \<notin> {Some ''dm'', Some ''topic'', Some ''server''}
   \<and> fetch_user_permissions demo_env (Some ''b1'') (Some ''s1'') (Some ''u1'')
       = (Inl (APIPermissionError (UnknownChannelType [(''kind'', ''bogus''), (''owner'', ''u1'')])),
          [])"
proof -
  let ?ch = "[(''kind'', ''bogus''), (''owner'', ''u1'')]"
  have c: "''b1'' \<noteq> []" by simp
  have s: "fetch_cached_permissions_data demo_env (Some ''b1'') (or_empty (Some ''u1''))
             = (?ch, [], [], [])"
    by code_simp
  have l: "load_channel demo_env ''b1'' ?ch = (Some ?ch, [])"
    by code_simp
  have n: "?ch \<noteq> []" by simp
  have k: "map_of ?ch ''kind'' \<notin> {Some ''dm'', Some ''topic'', Some ''server''}" by simp
  show ?thesis
    using unknown_kind_rejected [OF c s l n k, of "Some ''s1''"] k by simp
qed

text \<open>
  C10. For a channel id that is given and a channel record of kind dm: when the record has
  no members field, \<^verbatim>\<open>.split\<close> is applied to the list default and the call ends with
  Python's AttributeError for every user id, which is neither the permission error nor
  the 404; when the field is there, the call ends in one of the two documented ways.
\<close>

theorem dm_channel_needs_members_field:
  assumes "cid \<noteq> []"
    and "fetch_cached_permissions_data env (Some cid) (or_empty user_id)
           = (cached, cuser, cserver, csection)"
    and "load_channel env cid cached = (Some ch, cs)"
    and "map_of ch ''kind'' = Some ''dm''"
  shows "(map_of ch ''members'' = None
            \<longrightarrow> fetch_user_permissions env (Some cid) server_id user_id = (Inl AttributeError, cs))
       \<and> (map_of ch ''members'' \<noteq> None
            \<longrightarrow> fst (fetch_user_permissions env (Some cid) server_id user_id)
                  \<in> {Inl (APIPermissionError NotDMMember), Inr DEFAULT_DM_MEMBER_PERMISSIONS})"
proof (cases "map_of ch ''members''")
  case None
  then have "kind_dispatch ch server_id user_id = Raise AttributeError"
    using assms(4) by (simp add: kind_dispatch_def)
  from dispatch_raise [OF assms(1,2,3) kind_nonempty [OF assms(4)] this] None
  show ?thesis by simp
next
  case (Some ms)
  consider "kind_dispatch ch server_id user_id = Raise (APIPermissionError NotDMMember)"
    | "kind_dispatch ch server_id user_id = Return DEFAULT_DM_MEMBER_PERMISSIONS"
    using assms(4) Some
    by (cases "\<not> truthy user_id \<or> \<not> py_in user_id (str_split CHR '','' ms)")
      (simp_all add: kind_dispatch_def)
  then show ?thesis
  proof cases
    case 1
    from dispatch_raise [OF assms(1,2,3) kind_nonempty [OF assms(4)] this] Some
    show ?thesis by simp
  next
    case 2
    from dispatch_return [OF assms(1,2,3) kind_nonempty [OF assms(4)] this] Some
    show ?thesis by simp
  qed
qed

theorem dm_channel_needs_members_field_witness:
  "map_of [(''kind'', ''dm''), (''owner'', ''u1'')] ''members'' = None
   \<and> fetch_user_permissions demo_env (Some ''dm2'') None (Some ''u1'') = (Inl AttributeError, [])
   \<and> map_of [(''kind'', ''dm''), (''members'', ''u1,u2'')] ''members'' \<noteq> None
   \<and> fst (fetch_user_permissions demo_env (Some ''dm1'') None (Some ''u1''))
       \<in> {Inl (APIPermissionError NotDMMember), Inr DEFAULT_DM_MEMBER_PERMISSIONS}"
proof -
  let ?ch2 = "[(''kind'', ''dm''), (''owner'', ''u1'')]"
  let ?ch1 = "[(''kind'', ''dm''), (''members'', ''u1,u2'')]"
  have c2: "''dm2'' \<noteq> []" and c1: "''dm1'' \<noteq> []" by simp_all
  have s2: "fetch_cached_permissions_data demo_env (Some ''dm2'') (or_empty (Some ''u1''))
              = (?ch2, [], [], [])"
    by code_simp
  have s1: "fetch_cached_permissions_data demo_env (Some ''dm1'') (or_empty (Some ''u1''))
              = (?ch1, [], [], [])"
    by code_simp
  have l2: "load_channel demo_env ''dm2'' ?ch2 = (Some ?ch2, [])" by code_simp
  have l1: "load_channel demo_env ''dm1'' ?ch1 = (Some ?ch1, [])" by code_simp
  have k2: "map_of ?ch2 ''kind'' = Some ''dm''" and k1: "map_of ?ch1 ''kind'' = Some ''dm''"
    by simp_all
  have m2: "map_of ?ch2 ''members'' = None" and m1: "map_of ?ch1 ''members'' \<noteq> None"
    by simp_all
  show ?thesis
    using dm_channel_needs_members_field [OF c2 s2 l2 k2, of None]
      dm_channel_needs_members_field [OF c1 s1 l1 k1, of None] m1 m2
    by blast
qed


section \<open>Properties of the channel lookup\<close>

lemma and_then_raises:
  "fst (and_then m f) = Raise e
     \<longleftrightarrow> fst m = Raise e \<or> (\<exists>x. fst m = Continue x \<and> fst (f x) = Raise e)"
  by (cases m; cases "fst m") (auto simp: and_then_def split: prod.splits)

lemma and_then_calls: "\<exists>rest. snd (and_then m f) = snd m @ rest"
  by (cases m; cases "fst m") (auto simp: and_then_def split: prod.splits)

lemma server_block_no_raise: "fst (server_block env sid uid cached) \<noteq> Raise e"
  by (simp add: server_block_def Let_def split: option.split)

lemma roles_block_no_raise: "fst (roles_block env sid uid server cuser ur) \<noteq> Raise e"
  by (simp add: roles_block_def split: option.split)

lemma section_block_no_raise: "fst (section_block env channel_id ch cached) \<noteq> Raise e"
  by (simp add: section_block_def Let_def split: option.split)

lemma channel_overwrites_of_raises:
  "fst (channel_overwrites_of env ch) = Raise e \<Longrightarrow> e = JSONDecodeError"
  by (auto simp: channel_overwrites_of_def split: option.splits)

lemma section_overwrites_of_raises:
  "fst (section_overwrites_of env sec) = Raise e \<Longrightarrow> e = JSONDecodeError \<or> e = TypeError"
  by (auto simp: section_overwrites_of_def split: option.splits if_splits)

lemma overwrites_block_raises:
  "fst (overwrites_block env channel_id ch cached) = Raise e
     \<Longrightarrow> e = JSONDecodeError \<or> e = TypeError"
  unfolding overwrites_block_def
  by (auto simp: and_then_raises section_block_no_raise
      dest: channel_overwrites_of_raises section_overwrites_of_raises)

lemma kind_dispatch_raises:
  "kind_dispatch ch sid uid = Raise e
     \<Longrightarrow> e = AttributeError \<or> e = APIPermissionError NotDMMember
         \<or> e = APIPermissionError (UnknownChannelType ch)"
  by (auto simp: kind_dispatch_def split: option.splits if_splits)

lemma channel_block_raises:
  "fst (channel_block env channel_id sid uid cached) = Raise e
     \<Longrightarrow> e = HTTPException 404 ''channel not found'' \<or> e = AttributeError
         \<or> (\<exists>a. e = APIPermissionError a \<and> (\<forall>r p. a \<noteq> NeededPermissions r p))"
  by (auto simp: channel_block_def split: option.splits if_splits prod.splits step.splits
      dest!: kind_dispatch_raises)

lemma resolve_raises:
  assumes "fst (resolve env channel_id sid uid) = Raise e"
  shows "fst (channel_block env channel_id sid uid
                (fst (fetch_cached_permissions_data env channel_id (or_empty uid)))) = Raise e
         \<or> e = JSONDecodeError \<or> e = TypeError"
proof -
  obtain c u s x where d: "fetch_cached_permissions_data env channel_id (or_empty uid) = (c, u, s, x)"
    by (cases "fetch_cached_permissions_data env channel_id (or_empty uid)") auto
  show ?thesis
    using assms unfolding resolve_def d
    by (auto simp: and_then_raises server_block_no_raise roles_block_no_raise
        dest: overwrites_block_raises)
qed

lemma channel_block_not_found:
  assumes "cid \<noteq> []"
  shows "fst (channel_block env (Some cid) sid uid cached) = Raise (HTTPException n m)
           \<longleftrightarrow> n = 404 \<and> m = ''channel not found''
               \<and> (fst (load_channel env cid cached) = None
                    \<or> fst (load_channel env cid cached) = Some [])"
  using assms
  by (cases "load_channel env cid cached")
    (auto simp: channel_block_def split: option.splits step.splits prod.splits
      dest: kind_dispatch_raises)

lemma fetch_user_permissions_fst:
  assumes "truthy channel_id \<or> truthy server_id"
  shows "fst (fetch_user_permissions env channel_id server_id user_id) = Inl e
           \<longleftrightarrow> fst (resolve env channel_id server_id user_id) = Raise e"
  using assms
  by (cases "resolve env channel_id server_id user_id";
      cases "fst (resolve env channel_id server_id user_id)")
    (auto simp: fetch_user_permissions_def)

lemma fetch_user_permissions_snd:
  assumes "truthy channel_id \<or> truthy server_id"
  shows "snd (fetch_user_permissions env channel_id server_id user_id)
           = snd (resolve env channel_id server_id user_id)"
  using assms
  by (cases "resolve env channel_id server_id user_id";
      cases "fst (resolve env channel_id server_id user_id)")
    (auto simp: fetch_user_permissions_def)

lemma channel_block_calls:
  assumes "cid \<noteq> []"
  shows "snd (channel_block env (Some cid) sid uid cached) = snd (load_channel env cid cached)"
  using assms
  by (cases "load_channel env cid cached")
    (auto simp: channel_block_def split: option.splits step.splits prod.splits)

lemma resolve_calls:
  "\<exists>rest. snd (resolve env channel_id sid uid)
      = snd (channel_block env channel_id sid uid
               (fst (fetch_cached_permissions_data env channel_id (or_empty uid)))) @ rest"
proof -
  obtain c u s x where d: "fetch_cached_permissions_data env channel_id (or_empty uid) = (c, u, s, x)"
    by (cases "fetch_cached_permissions_data env channel_id (or_empty uid)") auto
  show ?thesis
    unfolding resolve_def d by (simp add: and_then_calls)
qed

text \<open>
  C6. For a channel id that is given: when the cached channel record is empty or has no
  kind field, the first thing the call does is to fetch the channel again with
  \<^verbatim>\<open>fetch_and_cache_channel\<close> (the helper that reads durable storage and refills the
  cache); and the call ends with an HTTPException, which is then the 404 "channel not
  found", exactly when that fetch was made and gave back nothing (\<^verbatim>\<open>None\<close> or an empty
  record).
\<close>

theorem channel_refetch_and_not_found:
  assumes "cid \<noteq> []"
    and "fetch_cached_permissions_data env (Some cid) (or_empty user_id)
           = (cached, cuser, cserver, csection)"
  shows "((cached = [] \<or> map_of cached ''kind'' = None)
            \<longrightarrow> (\<exists>rest. snd (fetch_user_permissions env (Some cid) server_id user_id)
                          = FetchChannel cid # rest))
       \<and> ((\<exists>n m. fst (fetch_user_permissions env (Some cid) server_id user_id)
                    = Inl (HTTPException n m))
            \<longleftrightarrow> (cached = [] \<or> map_of cached ''kind'' = None)
                \<and> (fetch_and_cache_channel env cid = None
                     \<or> fetch_and_cache_channel env cid = Some []))
       \<and> ((cached = [] \<or> map_of cached ''kind'' = None)
            \<and> (fetch_and_cache_channel env cid = None
                 \<or> fetch_and_cache_channel env cid = Some [])
            \<longrightarrow> fst (fetch_user_permissions env (Some cid) server_id user_id)
                  = Inl (HTTPException 404 ''channel not found''))"
proof -
  let ?r = "fetch_user_permissions env (Some cid) server_id user_id"
  let ?b = "channel_block env (Some cid) server_id user_id cached"
  have t: "truthy (Some cid) \<or> truthy server_id"
    using assms(1) by (simp add: truthy_def)
  have c: "fst (fetch_cached_permissions_data env (Some cid) (or_empty user_id)) = cached"
    using assms(2) by simp
  have http: "fst ?r = Inl (HTTPException n m) \<longleftrightarrow> fst ?b = Raise (HTTPException n m)" for n m
    using resolve_raises [of env "Some cid" server_id user_id "HTTPException n m"]
    by (auto simp: fetch_user_permissions_fst [OF t] c resolve_def assms(2) and_then_raises)
  have missing: "fst (load_channel env cid cached) = None \<or> fst (load_channel env cid cached) = Some []
      \<longleftrightarrow> (cached = [] \<or> map_of cached ''kind'' = None)
          \<and> (fetch_and_cache_channel env cid = None \<or> fetch_and_cache_channel env cid = Some [])"
    by (auto simp: load_channel_def)
  have calls: "\<exists>rest. snd ?r = snd (load_channel env cid cached) @ rest"
    using resolve_calls [of env "Some cid" server_id user_id]
    by (simp add: fetch_user_permissions_snd [OF t] c channel_block_calls [OF assms(1)])
  have first: "(cached = [] \<or> map_of cached ''kind'' = None)
      \<longrightarrow> (\<exists>rest. snd ?r = FetchChannel cid # rest)"
    using calls by (auto simp: load_channel_def)
  have iff: "(\<exists>n m. fst ?r = Inl (HTTPException n m))
      \<longleftrightarrow> (cached = [] \<or> map_of cached ''kind'' = None)
          \<and> (fetch_and_cache_channel env cid = None \<or> fetch_and_cache_channel env cid = Some [])"
    unfolding http channel_block_not_found [OF assms(1)] missing by simp
  have nf: "(cached = [] \<or> map_of cached ''kind'' = None)
        \<and> (fetch_and_cache_channel env cid = None \<or> fetch_and_cache_channel env cid = Some [])
      \<longrightarrow> fst ?r = Inl (HTTPException 404 ''channel not found'')"
    unfolding http channel_block_not_found [OF assms(1)] missing by simp
  show ?thesis
    using first iff nf by blast
qed

theorem channel_refetch_and_not_found_witness:
  "snd (fetch_user_permissions demo_env (Some ''c404'') None (Some ''u3'')) = [FetchChannel ''c404'']
   \<and> fst (fetch_user_permissions demo_env (Some ''c404'') None (Some ''u3''))
       = Inl (HTTPException 404 ''channel not found'')
   \<and> (\<exists>rest. snd (fetch_user_permissions demo_env (Some ''c3'') None (Some ''u3''))
                = FetchChannel ''c3'' # rest)
   \<and> \<not> (\<exists>n m. fst (fetch_user_permissions demo_env (Some ''c3'') None (Some ''u3''))
                  = Inl (HTTPException n m))"
proof -
  have c404: "''c404'' \<noteq> []" and c3: "''c3'' \<noteq> []" by simp_all
  have s404: "fetch_cached_permissions_data demo_env (Some ''c404'') (or_empty (Some ''u3''))
                = ([], [], [], [])"
    by code_simp
  have s3: "fetch_cached_permissions_data demo_env (Some ''c3'') (or_empty (Some ''u3''))
              = ([], [], [], [])"
    by code_simp
  have f404: "fetch_and_cache_channel demo_env ''c404'' = None" by code_simp
  have f3: "fetch_and_cache_channel demo_env ''c3'' \<noteq> None
            \<and> fetch_and_cache_channel demo_env ''c3'' \<noteq> Some []"
    by (simp add: demo_env_def)
  have e: "snd (fetch_user_permissions demo_env (Some ''c404'') None (Some ''u3''))
             = [FetchChannel ''c404'']"
    by code_simp
  show ?thesis
    using channel_refetch_and_not_found [OF c404 s404, of None]
      channel_refetch_and_not_found [OF c3 s3, of None] f404 f3 e
    by simp
qed


section \<open>Properties of the permission check\<close>

lemma fetch_user_permissions_errors:
  assumes "fst (fetch_user_permissions env channel_id server_id user_id) = Inl e"
  shows "e \<noteq> APIPermissionError (NeededPermissions needed actual)"
proof (cases "truthy channel_id \<or> truthy server_id")
  case True
  from assms have "fst (resolve env channel_id server_id user_id) = Raise e"
    by (simp add: fetch_user_permissions_fst [OF True])
  from resolve_raises [OF this] show ?thesis
    by (auto dest: channel_block_raises)
next
  case False
  with assms show ?thesis
    by (simp add: fetch_user_permissions_def)
qed

text \<open>
  C9. \<^verbatim>\<open>check_request_permissions\<close> resolves the user's permissions for the ids it extracts from the request.
  When the resolution returns the list ps, it raises the APIPermissionError that
  carries the required list R and ps exactly when some permission of R is not in ps, and
  returns without error when all of them are (so always when R is empty). It raises an
  error of that form in no other case: an exception of the resolution itself passes
  through unchanged.
\<close>

theorem check_denies_iff_permission_missing:
  "(fst (fetch_user_permissions env (fetch_channel_from_request request)
           (fetch_server_from_request request)
           (case current_user of Some u \<Rightarrow> Some (pk u) | None \<Rightarrow> None)) = Inr ps
      \<longrightarrow> (fst (check_request_permissions env request R current_user)
             = Inl (APIPermissionError (NeededPermissions R ps))
           \<longleftrightarrow> (\<exists>p \<in> set R. p \<notin> set ps))
        \<and> (fst (check_request_permissions env request R current_user) = Inr ()
           \<longleftrightarrow> set R \<subseteq> set ps)
        \<and> fst (check_request_permissions env request [] current_user) = Inr ())
   \<and> (fst (check_request_permissions env request R current_user)
         = Inl (APIPermissionError (NeededPermissions needed actual))
      \<longrightarrow> needed = R
        \<and> fst (fetch_user_permissions env (fetch_channel_from_request request)
                 (fetch_server_from_request request)
                 (case current_user of Some u \<Rightarrow> Some (pk u) | None \<Rightarrow> None)) = Inr actual
        \<and> (\<exists>p \<in> set R. p \<notin> set actual))
   \<and> (fst (fetch_user_permissions env (fetch_channel_from_request request)
           (fetch_server_from_request request)
           (case current_user of Some u \<Rightarrow> Some (pk u) | None \<Rightarrow> None)) = Inl e
      \<longrightarrow> fst (check_request_permissions env request R current_user) = Inl e)"
proof -
  let ?r = "fetch_user_permissions env (fetch_channel_from_request request)
              (fetch_server_from_request request)
              (case current_user of Some u \<Rightarrow> Some (pk u) | None \<Rightarrow> None)"
  obtain res cs where r: "?r = (res, cs)" by (cases ?r)
  show ?thesis
  proof (cases res)
    case (Inl e')
    have "e' \<noteq> APIPermissionError (NeededPermissions needed actual)"
      using fetch_user_permissions_errors [of env _ _ _ e' needed actual] r Inl
      by (metis fst_conv)
    then show ?thesis
      using r Inl by (simp add: check_request_permissions_def)
  next
    case (Inr ps')
    show ?thesis
      using r Inr
      by (auto simp: check_request_permissions_def list_all_iff)
  qed
qed

theorem check_denies_iff_permission_missing_witness:
  "fst (fetch_user_permissions demo_env (fetch_channel_from_request demo_request)
          (fetch_server_from_request demo_request)
          (case Some \<lparr> pk = ''u1'' \<rparr> of Some u \<Rightarrow> Some (pk u) | None \<Rightarrow> None))
     = Inr DEFAULT_DM_MEMBER_PERMISSIONS
   \<and> fst (check_request_permissions demo_env demo_request [''channels.delete'']
            (Some \<lparr> pk = ''u1'' \<rparr>))
       = Inl (APIPermissionError
               (NeededPermissions [''channels.delete''] DEFAULT_DM_MEMBER_PERMISSIONS))
   \<and> fst (check_request_permissions demo_env demo_request [''messages.create'']
            (Some \<lparr> pk = ''u1'' \<rparr>)) = Inr ()
   \<and> fst (check_request_permissions demo_env demo_request [] (Some \<lparr> pk = ''u1'' \<rparr>)) = Inr ()
   \<and> fst (check_request_permissions demo_env demo_request [] (Some \<lparr> pk = ''u3'' \<rparr>))
       = Inl (APIPermissionError NotDMMember)"
proof -
  let ?u1 = "Some \<lparr> pk = ''u1'' \<rparr>"
  let ?u3 = "Some \<lparr> pk = ''u3'' \<rparr>"
  have ch: "fetch_channel_from_request demo_request = Some ''dm1''"
    by (simp add: fetch_channel_from_request_def demo_request_def path_id_def
        fetch_fields_from_request_body_def truthy_def)
  have sv: "fetch_server_from_request demo_request = None"
    by (simp add: fetch_server_from_request_def demo_request_def path_id_def
        fetch_fields_from_request_body_def truthy_def)
  have e1: "fetch_user_permissions demo_env (Some ''dm1'') None (Some ''u1'')
              = (Inr DEFAULT_DM_MEMBER_PERMISSIONS, [])"
    by code_simp
  have e3: "fetch_user_permissions demo_env (Some ''dm1'') None (Some ''u3'')
              = (Inl (APIPermissionError NotDMMember), [])"
    by code_simp
  have r1: "fst (fetch_user_permissions demo_env (fetch_channel_from_request demo_request)
          (fetch_server_from_request demo_request)
          (case ?u1 of Some u \<Rightarrow> Some (pk u) | None \<Rightarrow> None))
     = Inr DEFAULT_DM_MEMBER_PERMISSIONS"
    by (simp add: ch sv e1)
  have r3: "fst (fetch_user_permissions demo_env (fetch_channel_from_request demo_request)
          (fetch_server_from_request demo_request)
          (case ?u3 of Some u \<Rightarrow> Some (pk u) | None \<Rightarrow> None))
     = Inl (APIPermissionError NotDMMember)"
    by (simp add: ch sv e3)
  have miss: "\<exists>p \<in> set [''channels.delete'']. p \<notin> set DEFAULT_DM_MEMBER_PERMISSIONS"
    by (simp add: DEFAULT_DM_MEMBER_PERMISSIONS_def)
  have has: "set [''messages.create''] \<subseteq> set DEFAULT_DM_MEMBER_PERMISSIONS"
    by (simp add: DEFAULT_DM_MEMBER_PERMISSIONS_def)
  have d: "fst (check_request_permissions demo_env demo_request [''channels.delete''] ?u1)
       = Inl (APIPermissionError
               (NeededPermissions [''channels.delete''] DEFAULT_DM_MEMBER_PERMISSIONS))"
    using check_denies_iff_permission_missing
        [of demo_env demo_request ?u1 DEFAULT_DM_MEMBER_PERMISSIONS "[''channels.delete'']"
          "[]" "[]" JSONDecodeError]
      r1 miss
    by blast
  have g: "fst (check_request_permissions demo_env demo_request [''messages.create''] ?u1) = Inr ()
      \<and> fst (check_request_permissions demo_env demo_request [] ?u1) = Inr ()"
    using check_denies_iff_permission_missing
        [of demo_env demo_request ?u1 DEFAULT_DM_MEMBER_PERMISSIONS "[''messages.create'']"
          "[]" "[]" JSONDecodeError]
      r1 has
    by blast
  have p: "fst (check_request_permissions demo_env demo_request [] ?u3)
       = Inl (APIPermissionError NotDMMember)"
    using check_denies_iff_permission_missing
        [of demo_env demo_request ?u3 "[]" "[]" "[]" "[]" "APIPermissionError NotDMMember"]
      r3
    by blast
  show ?thesis
    using r1 d g p by blast
qed


section \<open>Properties of topic channels and of server ownership\<close>

lemma server_block_no_context:
  assumes "\<not> truthy server_id"
  shows "server_block env server_id user_id [] = (Continue [], [])"
  using assms by (auto simp: server_block_def truthy_def split: option.split)

lemma roles_block_no_server:
  "roles_block env server_id user_id [] cuser user_roles = (Continue user_roles, [])"
  by (simp add: roles_block_def split: option.split)

text \<open>
  Without a server context (no server id in effect, no cached server record) the roles
  set by the dispatch reach the overwrite resolution unchanged.
\<close>

lemma resolve_without_server:
  assumes "cid \<noteq> []"
    and "fetch_cached_permissions_data env (Some cid) (or_empty user_id)
           = (cached, cuser, [], csection)"
    and "load_channel env cid cached = (Some ch, cs)" and "ch \<noteq> []"
    and "kind_dispatch ch server_id user_id = Continue (seed, server_id')"
    and "\<not> truthy server_id'"
    and "overwrites_block env (Some cid) ch csection = (Continue (so, co), cs')"
  shows "fetch_user_permissions env (Some cid) server_id user_id
           = (Inr (sorted_list_of_set (calc_final_permissions seed so co)), cs @ cs')"
  using assms(1,2,5,7)
  by (simp add: fetch_user_permissions_def resolve_def truthy_def
      channel_block_loaded [OF assms(1,3,4)] and_then_Continue
      server_block_no_context [OF assms(6)] roles_block_no_server)

lemma set_sorted_calc:
  "set (sorted_list_of_set (calc_final_permissions ur so co)) = calc_final_permissions ur so co"
  by (simp add: finite_calc_final_permissions)

lemma calc_members_seed:
  assumes "co ''@members'' = None" and "so ''@members'' = None"
  shows "calc_final_permissions [(''@members'', ps)] so co = set ps \<union> public_overwrite co"
  using assms
  by (simp add: calc_final_permissions_def public_overwrite_def split: option.split)

lemma calc_no_roles:
  assumes "co ''@public'' = None"
  shows "calc_final_permissions [] so co = {}"
  using assms by (simp add: calc_final_permissions_def)

text \<open>
  C5, as amended. For a channel id that is given and a channel record of kind topic:
  a non-empty user id equal to the channel's owner gets CHANNEL_OWNER_PERMISSIONS at once.
  For any other user, when the record has a members field, no server context is in effect
  (no server id was given and the cached snapshot has no server record) and the overwrite
  maps decode: a listed member gets a list that holds DEFAULT_TOPIC_MEMBER_PERMISSIONS,
  provided neither the channel's nor the section's overwrites have an entry for @members
  (the list is then exactly those defaults and the @public overwrite); and a user who is
  not listed gets the empty list when the channel has no @public overwrite.
\<close>

theorem topic_channel_permissions:
  assumes "cid \<noteq> []"
    and "fetch_cached_permissions_data env (Some cid) (or_empty user_id)
           = (cached, cuser, cserver, csection)"
    and "load_channel env cid cached = (Some ch, cs)"
    and "map_of ch ''kind'' = Some ''topic''"
  shows "(truthy user_id \<and> map_of ch ''owner'' = user_id
            \<longrightarrow> fetch_user_permissions env (Some cid) server_id user_id
                  = (Inr CHANNEL_OWNER_PERMISSIONS, cs))
       \<and> (\<not> (truthy user_id \<and> map_of ch ''owner'' = user_id)
            \<and> map_of ch ''members'' = Some ms
            \<and> \<not> truthy server_id \<and> cserver = []
            \<and> overwrites_block env (Some cid) ch csection = (Continue (so, co), cs')
            \<longrightarrow> (truthy user_id \<and> py_in user_id (str_split CHR '','' ms)
                   \<and> co ''@members'' = None \<and> so ''@members'' = None
                 \<longrightarrow> (\<exists>ps. fetch_user_permissions env (Some cid) server_id user_id
                              = (Inr ps, cs @ cs')
                          \<and> set ps = set DEFAULT_TOPIC_MEMBER_PERMISSIONS \<union> public_overwrite co
                          \<and> set DEFAULT_TOPIC_MEMBER_PERMISSIONS \<subseteq> set ps))
               \<and> (\<not> (truthy user_id \<and> py_in user_id (str_split CHR '','' ms))
                   \<and> co ''@public'' = None
                 \<longrightarrow> fetch_user_permissions env (Some cid) server_id user_id
                       = (Inr [], cs @ cs')))"
proof -
  let ?r = "fetch_user_permissions env (Some cid) server_id user_id"
  let ?owner = "truthy user_id \<and> map_of ch ''owner'' = user_id"
  let ?member = "truthy user_id \<and> py_in user_id (str_split CHR '','' ms)"
  note ne = kind_nonempty [OF assms(4)]
  have owner: "?r = (Inr CHANNEL_OWNER_PERMISSIONS, cs)" if "?owner"
  proof -
    have "kind_dispatch ch server_id user_id = Return CHANNEL_OWNER_PERMISSIONS"
      using assms(4) that by (simp add: kind_dispatch_def)
    from dispatch_return [OF assms(1,2,3) ne this] show ?thesis .
  qed
  have member: "\<exists>ps. ?r = (Inr ps, cs @ cs')
        \<and> set ps = set DEFAULT_TOPIC_MEMBER_PERMISSIONS \<union> public_overwrite co
        \<and> set DEFAULT_TOPIC_MEMBER_PERMISSIONS \<subseteq> set ps"
    if h: "\<not> ?owner" "map_of ch ''members'' = Some ms" "\<not> truthy server_id" "cserver = []"
      "overwrites_block env (Some cid) ch csection = (Continue (so, co), cs')"
      and m: "?member" "co ''@members'' = None" "so ''@members'' = None"
  proof -
    have d: "kind_dispatch ch server_id user_id
               = Continue ([(''@members'', DEFAULT_TOPIC_MEMBER_PERMISSIONS)], server_id)"
      using assms(4) h(1,2) m(1) by (simp add: kind_dispatch_def)
    have s: "fetch_cached_permissions_data env (Some cid) (or_empty user_id)
               = (cached, cuser, [], csection)"
      using assms(2) h(4) by simp
    let ?ps = "sorted_list_of_set
                 (calc_final_permissions [(''@members'', DEFAULT_TOPIC_MEMBER_PERMISSIONS)] so co)"
    have r: "?r = (Inr ?ps, cs @ cs')"
      by (rule resolve_without_server [OF assms(1) s assms(3) ne d h(3) h(5)])
    have "set ?ps = calc_final_permissions [(''@members'', DEFAULT_TOPIC_MEMBER_PERMISSIONS)] so co"
      by (rule set_sorted_calc)
    also have "\<dots> = set DEFAULT_TOPIC_MEMBER_PERMISSIONS \<union> public_overwrite co"
      using m(2,3) by (rule calc_members_seed)
    finally have "set ?ps = set DEFAULT_TOPIC_MEMBER_PERMISSIONS \<union> public_overwrite co" .
    with r show ?thesis by blast
  qed
  have outsider: "?r = (Inr [], cs @ cs')"
    if h: "\<not> ?owner" "map_of ch ''members'' = Some ms" "\<not> truthy server_id" "cserver = []"
      "overwrites_block env (Some cid) ch csection = (Continue (so, co), cs')"
      and m: "\<not> ?member" "co ''@public'' = None"
  proof -
    have d: "kind_dispatch ch server_id user_id = Continue ([], server_id)"
      using assms(4) h(1,2) m(1) by (simp add: kind_dispatch_def)
    have s: "fetch_cached_permissions_data env (Some cid) (or_empty user_id)
               = (cached, cuser, [], csection)"
      using assms(2) h(4) by simp
    have "?r = (Inr (sorted_list_of_set (calc_final_permissions [] so co)), cs @ cs')"
      by (rule resolve_without_server [OF assms(1) s assms(3) ne d h(3) h(5)])
    then show ?thesis
      using m(2) by (simp add: calc_no_roles)
  qed
  show ?thesis
    using owner member outsider by blast
qed

theorem topic_channel_permissions_witness:
  "fetch_user_permissions demo_env (Some ''t1'') None (Some ''u1'')
     = (Inr CHANNEL_OWNER_PERMISSIONS, [])
   \<and> (\<exists>ps. fetch_user_permissions demo_env (Some ''t1'') None (Some ''u2'') = (Inr ps, [])
          \<and> set DEFAULT_TOPIC_MEMBER_PERMISSIONS \<subseteq> set ps)
   \<and> fetch_user_permissions demo_env (Some ''t1'') None (Some ''u3'') = (Inr [], [])"
proof -
  let ?ch = "[(''kind'', ''topic''), (''owner'', ''u1''), (''members'', ''u1,u2''),
              (''section'', [])]"
  have c: "''t1'' \<noteq> []" by simp
  have s: "fetch_cached_permissions_data demo_env (Some ''t1'') (or_empty (Some u))
             = (?ch, demo_cache (''user:'' @ u), [], [])" if "u \<noteq> []" for u
    using that
    by (simp add: fetch_cached_permissions_data_def demo_env_def demo_cache_def py_str_def
        or_empty_def)
  have l: "load_channel demo_env ''t1'' ?ch = (Some ?ch, [])"
    by (simp add: load_channel_def)
  have k: "map_of ?ch ''kind'' = Some ''topic''" by simp
  have o: "overwrites_block demo_env (Some ''t1'') ?ch [] = (Continue (Map.empty, Map.empty), [])"
    by (simp add: overwrites_block_def channel_overwrites_of_def section_block_def
        section_overwrites_of_def and_then_def)
  have m: "map_of ?ch ''members'' = Some ''u1,u2''" by simp
  have sp: "str_split CHR '','' ''u1,u2'' = [''u1'', ''u2'']" by simp
  have n: "\<not> truthy None" by (simp add: truthy_def)
  have u1: "truthy (Some ''u1'') \<and> map_of ?ch ''owner'' = Some ''u1''"
    by (simp add: truthy_def)
  have u2: "\<not> (truthy (Some ''u2'') \<and> map_of ?ch ''owner'' = Some ''u2'')"
    and u2m: "truthy (Some ''u2'') \<and> py_in (Some ''u2'') (str_split CHR '','' ''u1,u2'')"
    by (simp_all add: truthy_def py_in_def)
  have u3: "\<not> (truthy (Some ''u3'') \<and> map_of ?ch ''owner'' = Some ''u3'')"
    and u3m: "\<not> (truthy (Some ''u3'') \<and> py_in (Some ''u3'') (str_split CHR '','' ''u1,u2''))"
    by (simp_all add: truthy_def py_in_def)
  have e: "(Map.empty :: overwrites) ''@members'' = None"
    "(Map.empty :: overwrites) ''@public'' = None"
    by simp_all
  have a1: "fetch_user_permissions demo_env (Some ''t1'') None (Some ''u1'')
              = (Inr CHANNEL_OWNER_PERMISSIONS, [])"
    using topic_channel_permissions [OF c s l k, of "''u1''" None] u1 by simp
  have a2: "\<exists>ps. fetch_user_permissions demo_env (Some ''t1'') None (Some ''u2'') = (Inr ps, [])
          \<and> set DEFAULT_TOPIC_MEMBER_PERMISSIONS \<subseteq> set ps"
    using topic_channel_permissions
        [OF c s l k, of "''u2''" None "''u1,u2''" Map.empty Map.empty "[]"]
      u2 u2m m n o e
    by (simp, blast)
  have a3: "fetch_user_permissions demo_env (Some ''t1'') None (Some ''u3'') = (Inr [], [])"
    using topic_channel_permissions
        [OF c s l k, of "''u3''" None "''u1,u2''" Map.empty Map.empty "[]"]
      u3 u3m m n o e
    by simp
  show ?thesis
    using a1 a2 a3 by blast
qed

text \<open>
  C5 as stated fails: in the sample deployment u2 is a listed member of the topic channel
  t2, does not own it and has no server role, and the channel's overwrite for @members
  replaces the defaults of that role, so that u2 gets the empty list.
\<close>

theorem topic_member_defaults_counterexample:
  "map_of (hgetall demo_env ''channel:t2'') ''kind'' = Some ''topic''
   \<and> map_of (hgetall demo_env ''channel:t2'') ''owner'' = Some ''u1''
   \<and> map_of (hgetall demo_env ''channel:t2'') ''members'' = Some ''u1,u2''
   \<and> fetch_user_permissions demo_env (Some ''t2'') None (Some ''u2'') = (Inr [], [])
   \<and> \<not> set DEFAULT_TOPIC_MEMBER_PERMISSIONS \<subseteq> set []"
  by code_simp

text \<open>
  The owner test on a server record that had to be fetched: with no cached server record,
  a server id in effect after the channel block and a user id equal to the owner of the
  fetched record, the call returns SERVER_OWNER_PERMISSIONS right after the fetch.
\<close>

lemma server_owner_short_circuit_on_fetch:
  assumes "truthy channel_id \<or> truthy server_id"
    and "fetch_cached_permissions_data env channel_id (or_empty user_id)
           = (cached, cuser, [], csection)"
    and "channel_block env channel_id server_id user_id cached
           = (Continue (ch, seed, Some sid), cs)"
    and "sid \<noteq> []"
    and "truthy user_id"
    and "map_of (fetch_and_cache_server env sid) ''owner'' = user_id"
  shows "fetch_user_permissions env channel_id server_id user_id
           = (Inr SERVER_OWNER_PERMISSIONS, cs @ [FetchServer sid])"
  using assms
  by (auto simp: fetch_user_permissions_def resolve_def and_then_Continue and_then_Return
      server_block_def)

text \<open>
  C1 fails on the code. In the sample deployment u1 owns the servers s1 and s2. For the
  channel c1 the record of s1 comes with the cached snapshot, the owner test of lines
  241-242 is skipped with the fetch it is nested in, and u1 gets only what the role r1
  gives. For the channel c2 the record of s2 has to be fetched and u1 gets the full
  catalog.
\<close>

theorem server_owner_cached_server_evaluation:
  "map_of (hgetall demo_env ''channel:c1'') ''kind'' = Some ''server''
   \<and> map_of (hgetall demo_env ''channel:c1'') ''server'' = Some ''s1''
   \<and> map_of (hgetall demo_env ''server:s1'') ''owner'' = Some ''u1''
   \<and> fetch_user_permissions demo_env (Some ''c1'') None (Some ''u1'')
       = (Inr [''messages.create'', ''messages.list''], [FetchUser ''u1'' (Some ''s1'')])
   \<and> map_of (fetch_and_cache_server demo_env ''s2'') ''owner'' = Some ''u1''
   \<and> fetch_user_permissions demo_env (Some ''c2'') None (Some ''u1'')
       = (Inr SERVER_OWNER_PERMISSIONS, [FetchServer ''s2''])"
  by code_simp


section \<open>Properties of the overwrite maps (lines 251-259)\<close>

text \<open>
  C8, as amended. The channel's overwrites are decoded from the permissions field of the
  channel record and are the empty map when the field is missing. A section is fetched
  exactly when the cached snapshot has no section record, a channel id was given and the
  section field of the channel is not the empty string; a missing field counts, and the
  fetch is then made without a section id. The section's overwrites are the empty map
  when the section record in use is empty, and are decoded from its permissions field when
  it has one. So a channel without a section field resolves without error when the fetch
  finds no section.
\<close>

theorem overwrites_block_defaults_and_fetch:
  assumes "fetch \<longleftrightarrow> csection = [] \<and> truthy channel_id \<and> map_of ch ''section'' \<noteq> Some []"
    and "sec = (if fetch
                then fetch_and_cache_section env (map_of ch ''section'') (or_empty channel_id)
                else csection)"
    and "map_of ch ''permissions'' = None \<and> co = Map.empty
         \<or> (\<exists>s. map_of ch ''permissions'' = Some s \<and> json_loads env s = Some co)"
    and "sec = [] \<and> so = Map.empty
         \<or> (\<exists>t. map_of sec ''permissions'' = Some t \<and> json_loads env t = Some so)"
  shows "overwrites_block env channel_id ch csection
           = (Continue (so, co),
              if fetch then [FetchSection (map_of ch ''section'') (or_empty channel_id)] else [])"
proof -
  have c: "channel_overwrites_of env ch = (Continue co, [])"
    using assms(3) by (auto simp: channel_overwrites_of_def)
  have b: "section_block env channel_id ch csection
             = (Continue sec,
                if fetch then [FetchSection (map_of ch ''section'') (or_empty channel_id)] else [])"
    using assms(1,2)
    by (cases channel_id) (auto simp: section_block_def truthy_def or_empty_def Let_def)
  have s: "section_overwrites_of env sec = (Continue so, [])"
    using assms(4) by (auto simp: section_overwrites_of_def)
  show ?thesis
    by (simp add: overwrites_block_def c b s and_then_Continue)
qed

theorem overwrites_block_defaults_and_fetch_witness:
  "map_of [(''kind'', ''topic''), (''owner'', ''u1''), (''members'', ''u1,u2'')] ''section'' = None
   \<and> map_of [(''kind'', ''topic''), (''owner'', ''u1''), (''members'', ''u1,u2'')] ''permissions''
       = None
   \<and> overwrites_block demo_env (Some ''t3'')
        [(''kind'', ''topic''), (''owner'', ''u1''), (''members'', ''u1,u2'')] []
       = (Continue (Map.empty, Map.empty), [FetchSection None ''t3''])
   \<and> overwrites_block demo_env (Some ''t2'')
        [(''kind'', ''topic''), (''owner'', ''u1''), (''members'', ''u1,u2''), (''section'', []),
         (''permissions'', members_none_json)] []
       = (Continue (Map.empty, Map.empty(''@members'' \<mapsto> [])), [])"
proof -
  let ?t3 = "[(''kind'', ''topic''), (''owner'', ''u1''), (''members'', ''u1,u2'')]"
  let ?t2 = "[(''kind'', ''topic''), (''owner'', ''u1''), (''members'', ''u1,u2''),
              (''section'', []), (''permissions'', members_none_json)]"
  have f3: "True \<longleftrightarrow> ([] :: fields) = [] \<and> truthy (Some ''t3'') \<and> map_of ?t3 ''section'' \<noteq> Some []"
    by (simp add: truthy_def)
  have s3: "([] :: fields) = (if True
              then fetch_and_cache_section demo_env (map_of ?t3 ''section'') (or_empty (Some ''t3''))
              else [])"
    by (simp add: demo_env_def)
  have c3: "map_of ?t3 ''permissions'' = None \<and> (Map.empty :: overwrites) = Map.empty
            \<or> (\<exists>s. map_of ?t3 ''permissions'' = Some s
                   \<and> json_loads demo_env s = Some (Map.empty :: overwrites))"
    by simp
  have e: "([] :: fields) = [] \<and> (Map.empty :: overwrites) = Map.empty
           \<or> (\<exists>t. map_of ([] :: fields) ''permissions'' = Some t
                  \<and> json_loads demo_env t = Some (Map.empty :: overwrites))"
    by simp
  have f2: "False \<longleftrightarrow> ([] :: fields) = [] \<and> truthy (Some ''t2'') \<and> map_of ?t2 ''section'' \<noteq> Some []"
    by simp
  have s2: "([] :: fields) = (if False
              then fetch_and_cache_section demo_env (map_of ?t2 ''section'') (or_empty (Some ''t2''))
              else [])"
    by simp
  have c2: "map_of ?t2 ''permissions'' = None \<and> Map.empty(''@members'' \<mapsto> []) = Map.empty
            \<or> (\<exists>s. map_of ?t2 ''permissions'' = Some s
                   \<and> json_loads demo_env s = Some (Map.empty(''@members'' \<mapsto> [])))"
    by (simp add: demo_env_def)
  show ?thesis
    using overwrites_block_defaults_and_fetch [OF f3 s3 c3 e]
      overwrites_block_defaults_and_fetch [OF f2 s2 c2 e]
    by (simp add: or_empty_def)
qed

text \<open>
  C8 as stated fails: the topic channel t3 of the sample deployment has no section field,
  and resolving for its member u2 fetches a section all the same, without a section id.
\<close>

theorem section_fetch_counterexample:
  "map_of (hgetall demo_env ''channel:t3'') ''section'' = None
   \<and> snd (fetch_user_permissions demo_env (Some ''t3'') None (Some ''u2''))
       = [FetchSection None ''t3'']"
  by code_simp

text \<open>
  The section record sec1 of the sample deployment is cached and has no permissions field.
  The default handed to \<^verbatim>\<open>json.loads\<close> at line 259 is a dict, where line 252 has the
  text of one, and the call ends with a TypeError.
\<close>

lemma section_without_permissions_evaluation:
  "map_of (hgetall demo_env ''section:sec1'') ''permissions'' = None
   \<and> fetch_user_permissions demo_env (Some ''c2'') None (Some ''u2'')
       = (Inl TypeError, [FetchServer ''s2'', FetchUser ''u2'' (Some ''s2'')])"
  by code_simp

end
